theory Spec2Isabelle
  imports Complex_Main "HOL-Library.Char_ord" "HOL-Library.List_Lexorder" "HOL-Library.Sublist"
begin

section \<open>The JavaScript primitives used by \<open>src/src/DataChart.jsx\<close>\<close>

text \<open>
  A JavaScript number is \<open>NaN\<close>, one of the two infinities, or a finite value. Finite
  values are kept exact (a rational): the rounding of IEEE doubles, their overflow and
  the sign of zero are outside this model. A \<open>char\<close> stands for one code unit below 256.
\<close>

datatype number = NaN | Infinity | NegInfinity | Num rat

fun js_add :: "number \<Rightarrow> number \<Rightarrow> number" where
  "js_add (Num a) (Num b) = Num (a + b)"
| "js_add NaN _ = NaN"
| "js_add _ NaN = NaN"
| "js_add Infinity NegInfinity = NaN"
| "js_add NegInfinity Infinity = NaN"
| "js_add Infinity _ = Infinity"
| "js_add _ Infinity = Infinity"
| "js_add NegInfinity _ = NegInfinity"
| "js_add _ NegInfinity = NegInfinity"

fun js_mul :: "number \<Rightarrow> number \<Rightarrow> number" where
  "js_mul (Num a) (Num b) = Num (a * b)"
| "js_mul NaN _ = NaN"
| "js_mul _ NaN = NaN"
| "js_mul Infinity (Num b) = (if b = 0 then NaN else if 0 < b then Infinity else NegInfinity)"
| "js_mul NegInfinity (Num b) = (if b = 0 then NaN else if 0 < b then NegInfinity else Infinity)"
| "js_mul (Num a) Infinity = (if a = 0 then NaN else if 0 < a then Infinity else NegInfinity)"
| "js_mul (Num a) NegInfinity = (if a = 0 then NaN else if 0 < a then NegInfinity else Infinity)"
| "js_mul Infinity Infinity = Infinity"
| "js_mul NegInfinity NegInfinity = Infinity"
| "js_mul Infinity NegInfinity = NegInfinity"
| "js_mul NegInfinity Infinity = NegInfinity"

fun js_div :: "number \<Rightarrow> number \<Rightarrow> number" where
  "js_div (Num a) (Num b) =
     (if b = 0 then (if a = 0 then NaN else if 0 < a then Infinity else NegInfinity)
      else Num (a / b))"
| "js_div NaN _ = NaN"
| "js_div _ NaN = NaN"
| "js_div (Num a) _ = Num 0"
| "js_div Infinity (Num b) = (if 0 \<le> b then Infinity else NegInfinity)"
| "js_div NegInfinity (Num b) = (if 0 \<le> b then NegInfinity else Infinity)"
| "js_div _ _ = NaN"

text \<open>\<open>a <= b\<close> and \<open>a >= b\<close>: false as soon as one side is \<open>NaN\<close>.\<close>

fun js_le :: "number \<Rightarrow> number \<Rightarrow> bool" where
  "js_le (Num a) (Num b) = (a \<le> b)"
| "js_le NaN _ = False"
| "js_le _ NaN = False"
| "js_le NegInfinity _ = True"
| "js_le _ Infinity = True"
| "js_le _ _ = False"

definition js_ge :: "number \<Rightarrow> number \<Rightarrow> bool" where
  "js_ge a b = js_le b a"

definition isNaN :: "number \<Rightarrow> bool" where
  "isNaN x = (x = NaN)"

definition Math_min :: "number \<Rightarrow> number \<Rightarrow> number" where
  "Math_min a b = (if a = NaN \<or> b = NaN then NaN else if js_le a b then a else b)"

definition Math_max :: "number \<Rightarrow> number \<Rightarrow> number" where
  "Math_max a b = (if a = NaN \<or> b = NaN then NaN else if js_le a b then b else a)"

text \<open>\<open>Math.round\<close>: the nearest integer, a tie going towards plus infinity.\<close>

fun Math_round :: "number \<Rightarrow> number" where
  "Math_round (Num a) = Num (of_int \<lfloor>a + 1 / 2\<rfloor>)"
| "Math_round x = x"

text \<open>\<open>x || 0\<close> on a number: \<open>NaN\<close> and zero are falsy.\<close>

definition orZero :: "number \<Rightarrow> number" where
  "orZero x = (if x = NaN \<or> x = Num 0 then Num 0 else x)"

text \<open>
  A field of a parsed CSV row is a string, or \<open>undefined\<close> (\<open>None\<close>) when the line has
  fewer fields than the header.
\<close>

fun ToString :: "string option \<Rightarrow> string" where
  "ToString None = ''undefined''"
| "ToString (Some s) = s"

text \<open>Truthiness of a field: defined and not the empty string.\<close>

fun truthy :: "string option \<Rightarrow> bool" where
  "truthy None = False"
| "truthy (Some s) = (s \<noteq> [])"

definition isWhiteSpace :: "char \<Rightarrow> bool" where
  "isWhiteSpace c = ((of_char c :: nat) \<in> set [9, 10, 11, 12, 13, 32, 160])"

definition trimStart :: "string \<Rightarrow> string" where
  "trimStart s = dropWhile isWhiteSpace s"

definition digitValue :: "char \<Rightarrow> nat option" where
  "digitValue c =
     (let n = of_char c :: nat in
      if 48 \<le> n \<and> n \<le> 57 then Some (n - 48)
      else if 97 \<le> n \<and> n \<le> 122 then Some (n - 87)
      else if 65 \<le> n \<and> n \<le> 90 then Some (n - 55)
      else None)"

definition isRadixDigit :: "nat \<Rightarrow> char \<Rightarrow> bool" where
  "isRadixDigit R c = (case digitValue c of None \<Rightarrow> False | Some d \<Rightarrow> d < R)"

definition mathInt :: "nat \<Rightarrow> string \<Rightarrow> nat" where
  "mathInt R Z =
     foldl (\<lambda>acc c. case digitValue c of None \<Rightarrow> acc | Some d \<Rightarrow> acc * R + d) 0 Z"

text \<open>
  \<open>parseInt(string)\<close> with no radix: leading white space is skipped, a sign is read,
  a \<open>0x\<close> prefix selects radix 16, and the longest run of digits is the value; no digit
  at all gives \<open>NaN\<close>. What follows the digits is ignored.
\<close>

definition parseInt :: "string option \<Rightarrow> number" where
  "parseInt string =
     (let S = trimStart (ToString string);
          sign = (if take 1 S = ''-'' then - 1 else 1 :: int);
          S1 = (if take 1 S = ''+'' \<or> take 1 S = ''-'' then drop 1 S else S);
          hex = (take 2 S1 = ''0x'' \<or> take 2 S1 = ''0X'');
          R = (if hex then 16 else 10);
          S2 = (if hex then drop 2 S1 else S1);
          Z = takeWhile (isRadixDigit R) S2
      in if Z = [] then NaN else Num (of_int (sign * int (mathInt R Z))))"

definition exponentPart :: "string \<Rightarrow> int" where
  "exponentPart s =
     (if take 1 s = ''e'' \<or> take 1 s = ''E'' then
        (let t = drop 1 s;
             neg = (take 1 t = ''-'');
             u = (if take 1 t = ''+'' \<or> neg then drop 1 t else t);
             ds = takeWhile (isRadixDigit 10) u
         in if ds = [] then 0
            else if neg then - int (mathInt 10 ds) else int (mathInt 10 ds))
      else 0)"

definition pow10 :: "int \<Rightarrow> rat" where
  "pow10 e = (if 0 \<le> e then 10 ^ nat e else 1 / 10 ^ nat (- e))"

text \<open>
  \<open>parseFloat(string)\<close>: the longest prefix, after leading white space, that is a
  decimal literal (sign, \<open>Infinity\<close>, or digits with an optional fraction and an
  optional exponent); \<open>NaN\<close> when there is none.
\<close>

definition parseFloat :: "string option \<Rightarrow> number" where
  "parseFloat string =
     (let S = trimStart (ToString string);
          neg = (take 1 S = ''-'');
          S1 = (if take 1 S = ''+'' \<or> neg then drop 1 S else S)
      in if take 8 S1 = ''Infinity'' then (if neg then NegInfinity else Infinity)
         else
           (let ip = takeWhile (isRadixDigit 10) S1;
                r1 = dropWhile (isRadixDigit 10) S1;
                dot = (take 1 r1 = ''.'');
                fp = (if dot then takeWhile (isRadixDigit 10) (drop 1 r1) else []);
                r2 = (if dot then dropWhile (isRadixDigit 10) (drop 1 r1) else r1);
                m = of_nat (mathInt 10 ip) + of_nat (mathInt 10 fp) / 10 ^ length fp
            in if ip = [] \<and> fp = [] then NaN
               else Num ((if neg then - 1 else 1) * m * pow10 (exponentPart r2))))"

text \<open>\<open>s.padStart(n, c)\<close> with a one-character pad string.\<close>

definition padStart :: "string \<Rightarrow> nat \<Rightarrow> char \<Rightarrow> string" where
  "padStart s n c = (if n \<le> length s then s else replicate (n - length s) c @ s)"

definition toLowerCaseChar :: "char \<Rightarrow> char" where
  "toLowerCaseChar c =
     (let n = of_char c :: nat in
      if (65 \<le> n \<and> n \<le> 90) \<or> (192 \<le> n \<and> n \<le> 222 \<and> n \<noteq> 215)
      then char_of (n + 32) else c)"

definition toLowerCase :: "string \<Rightarrow> string" where
  "toLowerCase s = map toLowerCaseChar s"

text \<open>\<open>s.includes(t)\<close>: \<open>t\<close> occurs in \<open>s\<close> as a contiguous substring.\<close>

fun String_includes :: "string \<Rightarrow> string \<Rightarrow> bool" where
  "String_includes [] t = (t = [])"
| "String_includes (c # s) t = (prefix t (c # s) \<or> String_includes s t)"

definition slice :: "'a list \<Rightarrow> nat \<Rightarrow> nat \<Rightarrow> 'a list" where
  "slice xs i j = take (j - i) (drop i xs)"

text \<open>
  The comparison of two strings by code units, which is the order \<open>Array.prototype.sort\<close>
  uses when it is given no comparator.
\<close>

fun compareCodeUnits :: "string \<Rightarrow> string \<Rightarrow> int" where
  "compareCodeUnits [] [] = 0"
| "compareCodeUnits [] (y # ys) = - 1"
| "compareCodeUnits (x # xs) [] = 1"
| "compareCodeUnits (x # xs) (y # ys) =
     (if (of_char x :: nat) < of_char y then - 1
      else if (of_char y :: nat) < of_char x then 1
      else compareCodeUnits xs ys)"

text \<open>
  \<open>xs.sort(cmp)\<close> is a stable sort: an insertion sort that puts an element in front of the
  first one it does not come after.
\<close>

fun insertBy :: "('a \<Rightarrow> 'a \<Rightarrow> int) \<Rightarrow> 'a \<Rightarrow> 'a list \<Rightarrow> 'a list" where
  "insertBy cmp x [] = [x]"
| "insertBy cmp x (y # ys) = (if cmp x y \<le> 0 then x # y # ys else y # insertBy cmp x ys)"

definition sortBy :: "('a \<Rightarrow> 'a \<Rightarrow> int) \<Rightarrow> 'a list \<Rightarrow> 'a list" where
  "sortBy cmp xs = foldr (insertBy cmp) xs []"

text \<open>A \<open>Set\<close> of strings, in insertion order as \<open>Array.from\<close> lists it.\<close>

definition Set_add :: "string list \<Rightarrow> string \<Rightarrow> string list" where
  "Set_add s x = (if x \<in> set s then s else s @ [x])"

section \<open>The data\<close>

text \<open>A row of the CSV file, keyed by the header (\<open>ITEM DESCRIPTION\<close>, \<open>RETAIL SALES\<close>, ...).\<close>

record row =
  SUPPLIER :: "string option"
  ITEM_DESCRIPTION :: "string option"
  YEAR :: "string option"
  MONTH :: "string option"
  RETAIL_SALES :: "string option"
  WAREHOUSE_SALES :: "string option"
  RETAIL_TRANSFERS :: "string option"

text \<open>
  \<open>startDate\<close> and \<open>endDate\<close>: \<open>{ year, month }\<close>, integers chosen among the date
  options. The field \<open>month\<close> is named \<open>monthNo\<close> here, \<open>month\<close> being the key of an
  aggregate below.
\<close>

record date =
  year :: int
  monthNo :: int

text \<open>An entry of \<open>monthlyData\<close> and of the chart's data.\<close>

record aggregate =
  month :: string
  retailSales :: number
  warehouseSales :: number
  retailTransfers :: number

text \<open>\<open>yearRange\<close>: \<open>{ min, max }\<close>.\<close>

record yearBounds =
  min_year :: number
  max_year :: number

record domain =
  suppliers :: "string list"
  items :: "string list"
  yearRange :: yearBounds

section \<open>The derivations of the component\<close>

subsection \<open>Suppliers, items and the range of years\<close>

text \<open>The variables of the scan: the two sets, \<open>minYear\<close> and \<open>maxYear\<close>.\<close>

record scan =
  supplierSet :: "string list"
  itemSet :: "string list"
  minYear :: number
  maxYear :: number

text \<open>The body of \<open>rawData.forEach\<close>.\<close>

definition scanRow :: "scan \<Rightarrow> row \<Rightarrow> scan" where
  "scanRow s row =
     (let s1 = (if truthy (SUPPLIER row)
                then s\<lparr>supplierSet := Set_add (supplierSet s) (ToString (SUPPLIER row))\<rparr>
                else s);
          s2 = (if truthy (ITEM_DESCRIPTION row)
                then s1\<lparr>itemSet := Set_add (itemSet s1) (ToString (ITEM_DESCRIPTION row))\<rparr>
                else s1);
          rowYear = parseInt (YEAR row)
      in if \<not> isNaN rowYear
         then s2\<lparr>minYear := Math_min (minYear s2) rowYear,
                 maxYear := Math_max (maxYear s2) rowYear\<rparr>
         else s2)"

text \<open>
  The first \<open>useMemo\<close> of the component, which yields \<open>{ suppliers, items, yearRange }\<close>
  from \<open>rawData\<close>.
\<close>

definition deriveFilterDomain :: "row list \<Rightarrow> domain" where
  "deriveFilterDomain rawData =
     (if length rawData = 0
      then \<lparr>suppliers = [], items = [],
            yearRange = \<lparr>min_year = Num 2020, max_year = Num 2024\<rparr>\<rparr>
      else
        (let s = foldl scanRow
                   \<lparr>supplierSet = [], itemSet = [], minYear = Infinity, maxYear = NegInfinity\<rparr>
                   rawData
         in \<lparr>suppliers = sortBy compareCodeUnits (supplierSet s),
             items = sortBy compareCodeUnits (itemSet s),
             yearRange =
               \<lparr>min_year = (if minYear s = Infinity then Num 2020 else minYear s),
                max_year = (if maxYear s = NegInfinity then Num 2024 else maxYear s)\<rparr>\<rparr>))"

subsection \<open>The options offered for a search term\<close>

definition filteredOptions :: "string \<Rightarrow> string list \<Rightarrow> string list \<Rightarrow> string \<Rightarrow> string list" where
  "filteredOptions filterType suppliers' items' searchTerm =
     (let options = (if filterType = ''supplier'' then suppliers' else items')
      in if searchTerm = [] then slice options 0 100
         else slice
                (filter (\<lambda>opt. String_includes (toLowerCase opt) (toLowerCase searchTerm)) options)
                0 100)"

subsection \<open>The validity of the range\<close>

definition isValidDateRange :: "date \<Rightarrow> date \<Rightarrow> bool" where
  "isValidDateRange startDate endDate =
     (let start = year startDate * 12 + monthNo startDate;
          end' = year endDate * 12 + monthNo endDate
      in end' \<ge> start)"

subsection \<open>The data of the chart\<close>

definition filterField :: "string \<Rightarrow> row \<Rightarrow> string option" where
  "filterField filterType row =
     (if filterType = ''supplier'' then SUPPLIER row else ITEM_DESCRIPTION row)"

text \<open>The predicate of \<open>rawData.filter\<close>: the selected value, then the range of dates.\<close>

definition keepRow :: "string \<Rightarrow> string \<Rightarrow> date \<Rightarrow> date \<Rightarrow> row \<Rightarrow> bool" where
  "keepRow selectedValue filterType startDate endDate row =
     (if filterField filterType row \<noteq> Some selectedValue then False
      else
        (let rowYear = parseInt (YEAR row);
             rowMonth = parseInt (MONTH row);
             rowDate = js_add (js_mul rowYear (Num 12)) rowMonth;
             start = year startDate * 12 + monthNo startDate;
             end' = year endDate * 12 + monthNo endDate
         in js_ge rowDate (Num (of_int start)) \<and> js_le rowDate (Num (of_int end'))))"

definition filtered :: "row list \<Rightarrow> string \<Rightarrow> string \<Rightarrow> date \<Rightarrow> date \<Rightarrow> row list" where
  "filtered rawData selectedValue filterType startDate endDate =
     filter (keepRow selectedValue filterType startDate endDate) rawData"

text \<open>The key of a row's group: \<open>`${row.YEAR}-${String(row.MONTH).padStart(2, '0')}`\<close>.\<close>

definition monthKey :: "row \<Rightarrow> string" where
  "monthKey row = ToString (YEAR row) @ ''-'' @ padStart (ToString (MONTH row)) 2 (CHR ''0'')"

text \<open>
  \<open>monthlyData\<close> is an object used as a dictionary: its entries in the order in which
  their keys were first written, which is the order of \<open>Object.values\<close> (a key holds a
  hyphen, so it is never an array index or a property of the prototype). The body of
  \<open>filtered.forEach\<close> creates the entry of the row's key when there is none and adds the
  three measures of the row to it.
\<close>

definition newEntry :: "string \<Rightarrow> aggregate" where
  "newEntry key =
     \<lparr>month = key, retailSales = Num 0, warehouseSales = Num 0, retailTransfers = Num 0\<rparr>"

text \<open>
  The contribution of a row to a measure: \<open>parseFloat(row['RETAIL SALES']) || 0\<close>, and
  the same for the two other measures.
\<close>

definition retailSalesOf :: "row \<Rightarrow> number" where
  "retailSalesOf row = orZero (parseFloat (RETAIL_SALES row))"

definition warehouseSalesOf :: "row \<Rightarrow> number" where
  "warehouseSalesOf row = orZero (parseFloat (WAREHOUSE_SALES row))"

definition retailTransfersOf :: "row \<Rightarrow> number" where
  "retailTransfersOf row = orZero (parseFloat (RETAIL_TRANSFERS row))"

definition addMeasures :: "aggregate \<Rightarrow> row \<Rightarrow> aggregate" where
  "addMeasures d row =
     d\<lparr>retailSales := js_add (retailSales d) (retailSalesOf row),
       warehouseSales := js_add (warehouseSales d) (warehouseSalesOf row),
       retailTransfers := js_add (retailTransfers d) (retailTransfersOf row)\<rparr>"

definition addRow :: "(string \<times> aggregate) list \<Rightarrow> row \<Rightarrow> (string \<times> aggregate) list" where
  "addRow monthlyData row =
     (let key = monthKey row;
          md = (if map_of monthlyData key = None then monthlyData @ [(key, newEntry key)]
                else monthlyData)
      in map (\<lambda>(k, d). if k = key then (k, addMeasures d row) else (k, d)) md)"

definition Object_values :: "(string \<times> 'a) list \<Rightarrow> 'a list" where
  "Object_values obj = map snd obj"

text \<open>The rounding of an entry to two decimals: \<open>Math.round(x * 100) / 100\<close>.\<close>

definition round2 :: "number \<Rightarrow> number" where
  "round2 x = js_div (Math_round (js_mul x (Num 100))) (Num 100)"

definition roundEntry :: "aggregate \<Rightarrow> aggregate" where
  "roundEntry d =
     d\<lparr>retailSales := round2 (retailSales d),
       warehouseSales := round2 (warehouseSales d),
       retailTransfers := round2 (retailTransfers d)\<rparr>"

text \<open>
  \<open>a.localeCompare(b)\<close> is the collation of the host, which the component does not
  define: it is the parameter \<open>localeCompare\<close> of \<open>chartData\<close>.
\<close>

definition chartData ::
  "(string \<Rightarrow> string \<Rightarrow> int) \<Rightarrow> row list \<Rightarrow> string \<Rightarrow> string \<Rightarrow> date \<Rightarrow> date \<Rightarrow> aggregate list"
where
  "chartData localeCompare rawData selectedValue filterType startDate endDate =
     (if selectedValue = [] \<or> length rawData = 0 \<or> \<not> isValidDateRange startDate endDate
      then []
      else
        (let monthlyData =
               foldl addRow [] (filtered rawData selectedValue filterType startDate endDate)
         in map roundEntry
              (sortBy (\<lambda>a b. localeCompare (month a) (month b)) (Object_values monthlyData))))"


section \<open>Notions used to state the properties\<close>








text \<open>A row in which every field is present.\<close>

definition csvRow ::
  "string \<Rightarrow> string \<Rightarrow> string \<Rightarrow> string \<Rightarrow> string \<Rightarrow> string \<Rightarrow> string \<Rightarrow> row"
where
  "csvRow supplier item y m retail warehouse transfers =
     \<lparr>SUPPLIER = Some supplier, ITEM_DESCRIPTION = Some item, YEAR = Some y, MONTH = Some m,
      RETAIL_SALES = Some retail, WAREHOUSE_SALES = Some warehouse,
      RETAIL_TRANSFERS = Some transfers\<rparr>"

section \<open>Sorting\<close>

lemma compareCodeUnits_le: "compareCodeUnits a b \<le> 0 \<longleftrightarrow> a \<le> b"
  by (induction a b rule: compareCodeUnits.induct) (auto simp: less_char_def)

lemma insertBy_insort:
  "insertBy (\<lambda>a b. compareCodeUnits (f a) (f b)) x xs = insort_key f x xs"
  by (induction xs) (simp_all add: compareCodeUnits_le)

lemma sortBy_sort_key: "sortBy (\<lambda>a b. compareCodeUnits (f a) (f b)) xs = sort_key f xs"
proof -
  have "insertBy (\<lambda>a b. compareCodeUnits (f a) (f b)) = insort_key f"
    by (intro ext) (rule insertBy_insort)
  then show ?thesis by (simp add: sortBy_def sort_key_def)
qed

lemma sortBy_sort: "sortBy compareCodeUnits xs = sort xs"
  using sortBy_sort_key [of "\<lambda>x. x" xs] by simp


lemma set_insertBy: "set (insertBy cmp x xs) = insert x (set xs)"
  by (induction xs) auto

lemma set_sortBy: "set (sortBy cmp xs) = set xs"
  by (induction xs) (simp_all add: sortBy_def set_insertBy)







section \<open>The groups of \<open>monthlyData\<close>\<close>

lemma month_roundEntry: "month (roundEntry d) = month d"
  by (simp add: roundEntry_def)

lemma month_addMeasures: "month (addMeasures d row) = month d"
  by (simp add: addMeasures_def)

lemma month_newEntry: "month (newEntry key) = key"
  by (simp add: newEntry_def)

lemma addRow_keys:
  "map fst (addRow md row) =
     (if monthKey row \<in> fst ` set md then map fst md else map fst md @ [monthKey row])"
  by (auto simp: addRow_def Let_def map_of_eq_None_iff case_prod_unfold)

lemma addRow_month:
  "\<forall>(k, d) \<in> set md. month d = k \<Longrightarrow> \<forall>(k, d) \<in> set (addRow md row). month d = k"
  by (fastforce simp: addRow_def Let_def month_addMeasures month_newEntry split: if_splits)

lemma foldl_addRow_keys:
  "set (map fst (foldl addRow md rows)) = fst ` set md \<union> monthKey ` set rows"
proof (induction rows arbitrary: md)
  case Nil
  then show ?case by simp
next
  case (Cons r rs)
  have "set (map fst (addRow md r)) = insert (monthKey r) (fst ` set md)"
    unfolding addRow_keys by auto
  then have "fst ` set (addRow md r) = insert (monthKey r) (fst ` set md)"
    by simp
  with Cons.IH [of "addRow md r"] show ?case by auto
qed


lemma foldl_addRow_month:
  "\<forall>(k, d) \<in> set md. month d = k \<Longrightarrow> \<forall>(k, d) \<in> set (foldl addRow md rows). month d = k"
proof (induction rows arbitrary: md)
  case Nil
  then show ?case by simp
next
  case (Cons r rs)
  show ?case using Cons.IH [OF addRow_month [OF Cons.prems]] by simp
qed

lemma monthlyData_months:
  "map month (map snd (foldl addRow [] rows)) = map fst (foldl addRow [] rows)"
proof -
  have "\<forall>(k, d) \<in> set (foldl addRow [] rows). month d = k"
    by (rule foldl_addRow_month) simp
  then show ?thesis unfolding map_map by (intro map_cong) auto
qed

lemma chartData_unfold:
  assumes "selectedValue \<noteq> []" "rawData \<noteq> []" "isValidDateRange startDate endDate"
  shows "chartData localeCompare rawData selectedValue filterType startDate endDate =
     map roundEntry
       (sortBy (\<lambda>a b. localeCompare (month a) (month b))
          (map snd
             (foldl addRow [] (filtered rawData selectedValue filterType startDate endDate))))"
  using assms by (simp add: chartData_def Let_def Object_values_def)

lemma map_month_roundEntry: "map month (map roundEntry ds) = map month ds"
  by (simp add: comp_def month_roundEntry)

lemma chartData_month_set:
  assumes "selectedValue \<noteq> []" "isValidDateRange startDate endDate"
  shows "month ` set (chartData localeCompare rawData selectedValue filterType startDate endDate) =
    monthKey ` set (filtered rawData selectedValue filterType startDate endDate)"
proof (cases "rawData = []")
  case True
  then show ?thesis by (simp add: chartData_def filtered_def)
next
  case False
  let ?md = "foldl addRow [] (filtered rawData selectedValue filterType startDate endDate)"
  let ?ds = "sortBy (\<lambda>a b. localeCompare (month a) (month b)) (map snd ?md)"
  have "month ` set (chartData localeCompare rawData selectedValue filterType startDate endDate) =
      set (map month (chartData localeCompare rawData selectedValue filterType startDate endDate))"
    by simp
  also have "\<dots> = set (map month (map roundEntry ?ds))"
    by (simp only: chartData_unfold [OF assms(1) False assms(2)])
  also have "\<dots> = set (map month (map snd ?md))"
    unfolding map_month_roundEntry by (simp only: set_map set_sortBy)
  also have "\<dots> = monthKey ` set (filtered rawData selectedValue filterType startDate endDate)"
    unfolding monthlyData_months foldl_addRow_keys by simp
  finally show ?thesis .
qed



lemma chartData_month_source:
  assumes "d \<in> set (chartData localeCompare rawData selectedValue filterType startDate endDate)"
  shows "\<exists>row \<in> set (filtered rawData selectedValue filterType startDate endDate).
           monthKey row = month d"
proof -
  from assms have g: "selectedValue \<noteq> []" "isValidDateRange startDate endDate"
    by (auto simp: chartData_def split: if_splits)
  from assms
  have "month d \<in>
      month ` set (chartData localeCompare rawData selectedValue filterType startDate endDate)"
    by (rule imageI)
  then show ?thesis unfolding chartData_month_set [OF g] by auto
qed

section \<open>The sums of the measures\<close>
















section \<open>The filter of the rows\<close>

lemma parseInt_cases: "parseInt s = NaN \<or> (\<exists>n::int. parseInt s = Num (of_int n))"
proof -
  have h: "(if c then NaN else Num (of_int k)) = NaN \<or>
      (\<exists>n::int. (if c then NaN else Num (of_int k)) = Num (of_int n))" for c and k :: int
    by auto
  show ?thesis unfolding parseInt_def Let_def by (rule h)
qed

lemma Num_of_int_inj: "Num (of_int a) = Num (of_int b) \<longleftrightarrow> a = b"
  by simp

lemma rowDate_int:
  "js_add (js_mul (Num (of_int y)) (Num 12)) (Num (of_int m)) = Num (of_int (y * 12 + m))"
  by simp

lemma js_le_int: "js_le (Num (of_int a)) (Num (of_int b)) \<longleftrightarrow> a \<le> b"
  by simp

lemma keepRow_iff:
  "keepRow selectedValue filterType startDate endDate row \<longleftrightarrow>
     filterField filterType row = Some selectedValue \<and>
     (\<exists>y m. parseInt (YEAR row) = Num (of_int y) \<and> parseInt (MONTH row) = Num (of_int m) \<and>
        year startDate * 12 + monthNo startDate \<le> y * 12 + m \<and>
        y * 12 + m \<le> year endDate * 12 + monthNo endDate)"
proof -
  consider (a) "parseInt (YEAR row) = NaN"
    | (b) "parseInt (MONTH row) = NaN"
    | (c) y m where "parseInt (YEAR row) = Num (of_int y)" "parseInt (MONTH row) = Num (of_int m)"
    using parseInt_cases [of "YEAR row"] parseInt_cases [of "MONTH row"] by blast
  then show ?thesis
  proof cases
    case a
    then show ?thesis by (simp add: keepRow_def Let_def js_ge_def)
  next
    case b
    then show ?thesis
      by (cases "parseInt (YEAR row)") (simp_all add: keepRow_def Let_def js_ge_def)
  next
    case c
    have "js_add (js_mul (parseInt (YEAR row)) (Num 12)) (parseInt (MONTH row)) =
        Num (of_int (y * 12 + m))"
      unfolding c by simp
    then show ?thesis
      unfolding keepRow_def Let_def js_ge_def c
      by (simp only: js_le_int Num_of_int_inj number.inject of_int_eq_iff) auto
  qed
qed

lemma keepRow_parsed:
  assumes "parseInt (YEAR r) = Num (of_int y)" "parseInt (MONTH r) = Num (of_int m)"
  shows "keepRow selectedValue filterType startDate endDate r \<longleftrightarrow>
     filterField filterType r = Some selectedValue \<and>
     year startDate * 12 + monthNo startDate \<le> y * 12 + m \<and>
     y * 12 + m \<le> year endDate * 12 + monthNo endDate"
proof -
  have "js_add (js_mul (parseInt (YEAR r)) (Num 12)) (parseInt (MONTH r)) =
      Num (of_int (y * 12 + m))"
    unfolding assms by simp
  then show ?thesis
    unfolding keepRow_def Let_def js_ge_def by (simp only: js_le_int) auto
qed

section \<open>The scan of the rows\<close>

lemma truthy_iff: "truthy x \<longleftrightarrow> (\<exists>s. x = Some s \<and> s \<noteq> [])"
  by (cases x) simp_all

lemma supplierSet_scanRow:
  "supplierSet (scanRow s row) =
     (if truthy (SUPPLIER row) then Set_add (supplierSet s) (ToString (SUPPLIER row))
      else supplierSet s)"
  by (simp add: scanRow_def Let_def)

lemma itemSet_scanRow:
  "itemSet (scanRow s row) =
     (if truthy (ITEM_DESCRIPTION row) then Set_add (itemSet s) (ToString (ITEM_DESCRIPTION row))
      else itemSet s)"
  by (simp add: scanRow_def Let_def)

lemma set_Set_add: "set (Set_add s x) = insert x (set s)"
  by (auto simp: Set_add_def)

lemma distinct_Set_add: "distinct s \<Longrightarrow> distinct (Set_add s x)"
  by (simp add: Set_add_def)

lemma supplierSet_foldl:
  "set (supplierSet (foldl scanRow s rows)) =
     set (supplierSet s) \<union> {x. x \<noteq> [] \<and> Some x \<in> SUPPLIER ` set rows}"
  by (induction rows arbitrary: s)
     (auto simp: supplierSet_scanRow set_Set_add truthy_iff image_iff)

lemma supplierSet_distinct:
  "distinct (supplierSet s) \<Longrightarrow> distinct (supplierSet (foldl scanRow s rows))"
  by (induction rows arbitrary: s) (simp_all add: supplierSet_scanRow distinct_Set_add)

lemma itemSet_foldl:
  "set (itemSet (foldl scanRow s rows)) =
     set (itemSet s) \<union> {x. x \<noteq> [] \<and> Some x \<in> ITEM_DESCRIPTION ` set rows}"
  by (induction rows arbitrary: s)
     (auto simp: itemSet_scanRow set_Set_add truthy_iff image_iff)

lemma itemSet_distinct:
  "distinct (itemSet s) \<Longrightarrow> distinct (itemSet (foldl scanRow s rows))"
  by (induction rows arbitrary: s) (simp_all add: itemSet_scanRow distinct_Set_add)







section \<open>Strings of decimal digits\<close>













section \<open>Substrings\<close>

lemma String_includes_sublist: "String_includes s t \<longleftrightarrow> sublist t s"
  by (induction s) (simp_all add: sublist_Cons_right)

section \<open>The worked example of the aggregation\<close>

text \<open>
  C1. Two rows of supplier Acme in January 2019, with retail sales 10 and 2.5, warehouse
  sales 5 and 0 and retail transfers 0 and 1: with the supplier Acme selected and the
  range January 2019 to December 2019, the data of the chart is the single entry
  \<open>2019-01\<close> with retail sales 12.5, warehouse sales 5 and retail transfers 1, whatever
  the collation.
\<close>

theorem chartData_example:
  "chartData localeCompare
     [\<lparr>SUPPLIER = Some ''Acme'', ITEM_DESCRIPTION = None, YEAR = Some ''2019'',
        MONTH = Some ''1'', RETAIL_SALES = Some ''10'', WAREHOUSE_SALES = Some ''5'',
        RETAIL_TRANSFERS = Some ''0''\<rparr>,
      \<lparr>SUPPLIER = Some ''Acme'', ITEM_DESCRIPTION = None, YEAR = Some ''2019'',
        MONTH = Some ''1'', RETAIL_SALES = Some ''2.5'', WAREHOUSE_SALES = Some ''0'',
        RETAIL_TRANSFERS = Some ''1''\<rparr>]
     ''Acme'' ''supplier'' \<lparr>year = 2019, monthNo = 1\<rparr> \<lparr>year = 2019, monthNo = 12\<rparr>
   = [\<lparr>month = ''2019-01'', retailSales = Num (25 / 2), warehouseSales = Num 5,
       retailTransfers = Num 1\<rparr>]"
  by code_simp

theorem chartData_example_witness:
  "map month (chartData compareCodeUnits
     [\<lparr>SUPPLIER = Some ''Acme'', ITEM_DESCRIPTION = None, YEAR = Some ''2019'',
        MONTH = Some ''1'', RETAIL_SALES = Some ''10'', WAREHOUSE_SALES = Some ''5'',
        RETAIL_TRANSFERS = Some ''0''\<rparr>,
      \<lparr>SUPPLIER = Some ''Acme'', ITEM_DESCRIPTION = None, YEAR = Some ''2019'',
        MONTH = Some ''1'', RETAIL_SALES = Some ''2.5'', WAREHOUSE_SALES = Some ''0'',
        RETAIL_TRANSFERS = Some ''1''\<rparr>]
     ''Acme'' ''supplier'' \<lparr>year = 2019, monthNo = 1\<rparr> \<lparr>year = 2019, monthNo = 12\<rparr>)
   = [''2019-01'']"
  using chartData_example [of compareCodeUnits] by simp

section \<open>The range filter\<close>

text \<open>
  C2. Every row kept by the filter has a year and a month that \<open>parseInt\<close> reads, with a
  linear key \<open>year * 12 + month\<close> between the keys of the start and of the end, both
  included; a row whose year or month is not read is left out; and every entry of the
  chart has the key of a row of the data that is in the range.
\<close>

theorem filtered_in_range:
  "(\<forall>row \<in> set (filtered rawData selectedValue filterType startDate endDate).
      \<exists>y m. parseInt (YEAR row) = Num (of_int y) \<and> parseInt (MONTH row) = Num (of_int m) \<and>
        year startDate * 12 + monthNo startDate \<le> y * 12 + m \<and>
        y * 12 + m \<le> year endDate * 12 + monthNo endDate)
   \<and> (\<forall>row. parseInt (YEAR row) = NaN \<or> parseInt (MONTH row) = NaN \<longrightarrow>
        row \<notin> set (filtered rawData selectedValue filterType startDate endDate))
   \<and> (\<forall>d \<in> set (chartData localeCompare rawData selectedValue filterType startDate endDate).
        \<exists>row \<in> set rawData. monthKey row = month d \<and>
          (\<exists>y m. parseInt (YEAR row) = Num (of_int y) \<and> parseInt (MONTH row) = Num (of_int m) \<and>
             year startDate * 12 + monthNo startDate \<le> y * 12 + m \<and>
             y * 12 + m \<le> year endDate * 12 + monthNo endDate))"
proof (intro conjI ballI impI allI)
  fix row
  assume "row \<in> set (filtered rawData selectedValue filterType startDate endDate)"
  then have "keepRow selectedValue filterType startDate endDate row"
    by (simp add: filtered_def)
  then show "\<exists>y m. parseInt (YEAR row) = Num (of_int y) \<and> parseInt (MONTH row) = Num (of_int m) \<and>
        year startDate * 12 + monthNo startDate \<le> y * 12 + m \<and>
        y * 12 + m \<le> year endDate * 12 + monthNo endDate"
    unfolding keepRow_iff by blast
next
  fix row :: row
  assume "parseInt (YEAR row) = NaN \<or> parseInt (MONTH row) = NaN"
  then have "\<not> keepRow selectedValue filterType startDate endDate row"
    unfolding keepRow_iff by auto
  then show "row \<notin> set (filtered rawData selectedValue filterType startDate endDate)"
    by (simp add: filtered_def)
next
  fix d
  assume "d \<in> set (chartData localeCompare rawData selectedValue filterType startDate endDate)"
  then obtain row where r: "row \<in> set (filtered rawData selectedValue filterType startDate endDate)"
      "monthKey row = month d"
    using chartData_month_source by blast
  then have "keepRow selectedValue filterType startDate endDate row" and "row \<in> set rawData"
    by (simp_all add: filtered_def)
  then show "\<exists>row \<in> set rawData. monthKey row = month d \<and>
          (\<exists>y m. parseInt (YEAR row) = Num (of_int y) \<and> parseInt (MONTH row) = Num (of_int m) \<and>
             year startDate * 12 + monthNo startDate \<le> y * 12 + m \<and>
             y * 12 + m \<le> year endDate * 12 + monthNo endDate)"
    unfolding keepRow_iff using r(2) by blast
qed

theorem filtered_in_range_witness:
  "csvRow ''Acme'' ''Ale'' ''2019'' ''3'' ''10'' ''5'' ''0''
     \<in> set (filtered [csvRow ''Acme'' ''Ale'' ''2019'' ''3'' ''10'' ''5'' ''0'',
                      csvRow ''Acme'' ''Ale'' ''N/A'' ''3'' ''10'' ''5'' ''0'',
                      csvRow ''Acme'' ''Ale'' ''2021'' ''1'' ''10'' ''5'' ''0'']
          ''Acme'' ''supplier'' \<lparr>year = 2019, monthNo = 1\<rparr> \<lparr>year = 2019, monthNo = 12\<rparr>)
   \<and> (\<exists>y m. parseInt (YEAR (csvRow ''Acme'' ''Ale'' ''2019'' ''3'' ''10'' ''5'' ''0'')) =
               Num (of_int y) \<and>
             parseInt (MONTH (csvRow ''Acme'' ''Ale'' ''2019'' ''3'' ''10'' ''5'' ''0'')) =
               Num (of_int m) \<and>
             year \<lparr>year = 2019, monthNo = 1\<rparr> * 12 + monthNo \<lparr>year = 2019, monthNo = 1\<rparr>
               \<le> y * 12 + m \<and>
             y * 12 + m
               \<le> year \<lparr>year = 2019, monthNo = 12\<rparr> * 12 + monthNo \<lparr>year = 2019, monthNo = 12\<rparr>)
   \<and> parseInt (YEAR (csvRow ''Acme'' ''Ale'' ''N/A'' ''3'' ''10'' ''5'' ''0'')) = NaN
   \<and> csvRow ''Acme'' ''Ale'' ''N/A'' ''3'' ''10'' ''5'' ''0''
     \<notin> set (filtered [csvRow ''Acme'' ''Ale'' ''2019'' ''3'' ''10'' ''5'' ''0'',
                      csvRow ''Acme'' ''Ale'' ''N/A'' ''3'' ''10'' ''5'' ''0'',
                      csvRow ''Acme'' ''Ale'' ''2021'' ''1'' ''10'' ''5'' ''0'']
          ''Acme'' ''supplier'' \<lparr>year = 2019, monthNo = 1\<rparr> \<lparr>year = 2019, monthNo = 12\<rparr>)"
proof -
  note t = filtered_in_range [where rawData = "[csvRow ''Acme'' ''Ale'' ''2019'' ''3'' ''10'' ''5'' ''0'',
                      csvRow ''Acme'' ''Ale'' ''N/A'' ''3'' ''10'' ''5'' ''0'',
                      csvRow ''Acme'' ''Ale'' ''2021'' ''1'' ''10'' ''5'' ''0'']"
      and selectedValue = "''Acme''" and filterType = "''supplier''"
      and startDate = "\<lparr>year = 2019, monthNo = 1\<rparr>" and endDate = "\<lparr>year = 2019, monthNo = 12\<rparr>"
      and localeCompare = compareCodeUnits]
  have a: "csvRow ''Acme'' ''Ale'' ''2019'' ''3'' ''10'' ''5'' ''0''
     \<in> set (filtered [csvRow ''Acme'' ''Ale'' ''2019'' ''3'' ''10'' ''5'' ''0'',
                      csvRow ''Acme'' ''Ale'' ''N/A'' ''3'' ''10'' ''5'' ''0'',
                      csvRow ''Acme'' ''Ale'' ''2021'' ''1'' ''10'' ''5'' ''0'']
          ''Acme'' ''supplier'' \<lparr>year = 2019, monthNo = 1\<rparr> \<lparr>year = 2019, monthNo = 12\<rparr>)"
    by code_simp
  have b: "parseInt (YEAR (csvRow ''Acme'' ''Ale'' ''N/A'' ''3'' ''10'' ''5'' ''0'')) = NaN"
    by code_simp
  note t1 = t [THEN conjunct1, THEN bspec, OF a]
  note t2 = t [THEN conjunct2, THEN conjunct1, THEN spec, THEN mp, OF disjI1, OF b]
  from a t1 b t2 show ?thesis by (intro conjI)
qed

section \<open>The consistency of the sums\<close>




section \<open>The keys of the chart\<close>



section \<open>The guard of the aggregation\<close>

text \<open>
  C5. With an empty selected value, no row, or a range that is not valid, the data of
  the chart is empty, and the model has no error to raise; in particular an empty selected
  value gives no entry for any rows and any range.
\<close>

theorem chartData_guard:
  "(selectedValue = [] \<or> rawData = [] \<or> \<not> isValidDateRange startDate endDate \<longrightarrow>
      chartData localeCompare rawData selectedValue filterType startDate endDate = [])
   \<and> chartData localeCompare (row # rows) [] filterType startDate endDate = []"
  by (simp add: chartData_def)

theorem chartData_guard_witness:
  "isValidDateRange \<lparr>year = 2019, monthNo = 1\<rparr> \<lparr>year = 2019, monthNo = 12\<rparr>
   \<and> chartData compareCodeUnits [csvRow ''Acme'' ''Ale'' ''2019'' ''1'' ''10'' ''5'' ''0''] []
        ''supplier'' \<lparr>year = 2019, monthNo = 1\<rparr> \<lparr>year = 2019, monthNo = 12\<rparr> = []
   \<and> \<not> isValidDateRange \<lparr>year = 2019, monthNo = 12\<rparr> \<lparr>year = 2019, monthNo = 1\<rparr>
   \<and> chartData compareCodeUnits [csvRow ''Acme'' ''Ale'' ''2019'' ''1'' ''10'' ''5'' ''0'']
        ''Acme'' ''supplier'' \<lparr>year = 2019, monthNo = 12\<rparr> \<lparr>year = 2019, monthNo = 1\<rparr> = []"
proof -
  have v: "isValidDateRange \<lparr>year = 2019, monthNo = 1\<rparr> \<lparr>year = 2019, monthNo = 12\<rparr>"
    "\<not> isValidDateRange \<lparr>year = 2019, monthNo = 12\<rparr> \<lparr>year = 2019, monthNo = 1\<rparr>"
    by (simp_all add: isValidDateRange_def)
  have a: "chartData compareCodeUnits [csvRow ''Acme'' ''Ale'' ''2019'' ''1'' ''10'' ''5'' ''0''] []
        ''supplier'' \<lparr>year = 2019, monthNo = 1\<rparr> \<lparr>year = 2019, monthNo = 12\<rparr> = []"
    by (rule chartData_guard [THEN conjunct1, THEN mp]) simp
  have b: "chartData compareCodeUnits [csvRow ''Acme'' ''Ale'' ''2019'' ''1'' ''10'' ''5'' ''0'']
        ''Acme'' ''supplier'' \<lparr>year = 2019, monthNo = 12\<rparr> \<lparr>year = 2019, monthNo = 1\<rparr> = []"
    by (rule chartData_guard [THEN conjunct1, THEN mp]) (simp add: v)
  from v(1) a v(2) b show ?thesis by (intro conjI)
qed

section \<open>The options offered for a search term\<close>

text \<open>
  C6, as the code has it. For the search term \<open>ac\<close> and the suppliers Acme, Ajax and
  Beta the options are Acme alone, the only one whose lower-case text holds \<open>ac\<close>. For
  every non-empty search term the options are the entries of the chosen list whose
  lower-case text has the lower-case search term as a contiguous substring, in the order
  of the list, and the first 100 of them at most.
\<close>

theorem filteredOptions_search:
  "filteredOptions ''supplier'' [''Acme'', ''Ajax'', ''Beta''] items' ''ac'' = [''Acme'']
   \<and> (searchTerm \<noteq> [] \<longrightarrow>
        filteredOptions filterType suppliers' items' searchTerm =
          take 100 (filter (\<lambda>opt. sublist (toLowerCase searchTerm) (toLowerCase opt))
            (if filterType = ''supplier'' then suppliers' else items')))"
proof
  show "filteredOptions ''supplier'' [''Acme'', ''Ajax'', ''Beta''] items' ''ac'' = [''Acme'']"
  proof -
    have "map toLowerCase [''Acme'', ''Ajax'', ''Beta'', ''ac''] =
        [''acme'', ''ajax'', ''beta'', ''ac'']"
      by code_simp
    then show ?thesis by (simp add: filteredOptions_def slice_def)
  qed
  show "searchTerm \<noteq> [] \<longrightarrow>
        filteredOptions filterType suppliers' items' searchTerm =
          take 100 (filter (\<lambda>opt. sublist (toLowerCase searchTerm) (toLowerCase opt))
            (if filterType = ''supplier'' then suppliers' else items'))"
    by (simp add: filteredOptions_def slice_def String_includes_sublist)
qed

theorem filteredOptions_search_witness:
  "''AC'' \<noteq> []
   \<and> filteredOptions ''item'' [] [''Acme'', ''Ajax'', ''Tack''] ''AC'' =
      take 100 (filter (\<lambda>opt. sublist (toLowerCase ''AC'') (toLowerCase opt))
            (if ''item'' = ''supplier'' then [] else [''Acme'', ''Ajax'', ''Tack'']))
   \<and> filteredOptions ''item'' [] [''Acme'', ''Ajax'', ''Tack''] ''AC'' = [''Acme'', ''Tack'']"
proof -
  have h: "''AC'' \<noteq> []" by simp
  have e: "filteredOptions ''item'' [] [''Acme'', ''Ajax'', ''Tack''] ''AC'' = [''Acme'', ''Tack'']"
    by code_simp
  from filteredOptions_search [where searchTerm = "''AC''" and filterType = "''item''"
      and suppliers' = "[]" and items' = "[''Acme'', ''Ajax'', ''Tack'']"] h
  show ?thesis using e by simp
qed

text \<open>
  C6 as stated fails: for the search term \<open>ac\<close> the options are not Acme and Ajax, since
  \<open>ajax\<close> does not hold \<open>ac\<close>.
\<close>

theorem filteredOptions_counterexample:
  "filteredOptions ''supplier'' [''Acme'', ''Ajax'', ''Beta''] [] ''ac'' \<noteq> [''Acme'', ''Ajax'']"
  by code_simp

section \<open>The validity of the range\<close>

text \<open>
  C7. The range is valid exactly when the linear key of the end, \<open>year * 12 + month\<close>,
  is at least that of the start. January 2020 to January 2019 is not valid; January 2020
  to January 2020, a single month, is.
\<close>

theorem isValidDateRange_iff:
  "(isValidDateRange startDate endDate \<longleftrightarrow>
      year endDate * 12 + monthNo endDate \<ge> year startDate * 12 + monthNo startDate)
   \<and> \<not> isValidDateRange \<lparr>year = 2020, monthNo = 1\<rparr> \<lparr>year = 2019, monthNo = 1\<rparr>
   \<and> isValidDateRange \<lparr>year = 2020, monthNo = 1\<rparr> \<lparr>year = 2020, monthNo = 1\<rparr>"
  by (simp add: isValidDateRange_def)

theorem isValidDateRange_iff_witness:
  "isValidDateRange \<lparr>year = 2019, monthNo = 12\<rparr> \<lparr>year = 2020, monthNo = 1\<rparr>
   \<and> \<not> isValidDateRange \<lparr>year = 2020, monthNo = 1\<rparr> \<lparr>year = 2019, monthNo = 12\<rparr>"
  using isValidDateRange_iff [of "\<lparr>year = 2019, monthNo = 12\<rparr>" "\<lparr>year = 2020, monthNo = 1\<rparr>"]
    isValidDateRange_iff [of "\<lparr>year = 2020, monthNo = 1\<rparr>" "\<lparr>year = 2019, monthNo = 12\<rparr>"]
  by simp

section \<open>Suppliers, items and the range of years\<close>

text \<open>
  C8. The suppliers and the items derived from the rows are without duplicates and in
  lexicographic order, and they are the supplier and the item fields of the rows that are
  present and not empty.
\<close>

theorem deriveFilterDomain_sorted:
  "distinct (suppliers (deriveFilterDomain rawData))
   \<and> sorted (suppliers (deriveFilterDomain rawData))
   \<and> set (suppliers (deriveFilterDomain rawData)) =
       {x. x \<noteq> [] \<and> Some x \<in> SUPPLIER ` set rawData}
   \<and> distinct (items (deriveFilterDomain rawData))
   \<and> sorted (items (deriveFilterDomain rawData))
   \<and> set (items (deriveFilterDomain rawData)) =
       {x. x \<noteq> [] \<and> Some x \<in> ITEM_DESCRIPTION ` set rawData}"
  by (simp add: deriveFilterDomain_def Let_def sortBy_sort supplierSet_foldl itemSet_foldl
      supplierSet_distinct itemSet_distinct)

theorem deriveFilterDomain_sorted_witness:
  "suppliers (deriveFilterDomain
      [csvRow ''Beta'' ''Rum'' ''2019'' ''1'' ''1'' ''1'' ''1'',
       csvRow ''Acme'' ''Ale'' ''2019'' ''1'' ''1'' ''1'' ''1'',
       csvRow [] ''Ale'' ''2019'' ''1'' ''1'' ''1'' ''1'',
       csvRow ''Beta'' ''Gin'' ''2019'' ''1'' ''1'' ''1'' ''1'']) = [''Acme'', ''Beta'']
   \<and> items (deriveFilterDomain
      [csvRow ''Beta'' ''Rum'' ''2019'' ''1'' ''1'' ''1'' ''1'',
       csvRow ''Acme'' ''Ale'' ''2019'' ''1'' ''1'' ''1'' ''1'',
       csvRow [] ''Ale'' ''2019'' ''1'' ''1'' ''1'' ''1'',
       csvRow ''Beta'' ''Gin'' ''2019'' ''1'' ''1'' ''1'' ''1'']) = [''Ale'', ''Gin'', ''Rum'']
   \<and> distinct (suppliers (deriveFilterDomain
      [csvRow ''Beta'' ''Rum'' ''2019'' ''1'' ''1'' ''1'' ''1'',
       csvRow ''Acme'' ''Ale'' ''2019'' ''1'' ''1'' ''1'' ''1'',
       csvRow [] ''Ale'' ''2019'' ''1'' ''1'' ''1'' ''1'',
       csvRow ''Beta'' ''Gin'' ''2019'' ''1'' ''1'' ''1'' ''1'']))
   \<and> sorted (items (deriveFilterDomain
      [csvRow ''Beta'' ''Rum'' ''2019'' ''1'' ''1'' ''1'' ''1'',
       csvRow ''Acme'' ''Ale'' ''2019'' ''1'' ''1'' ''1'' ''1'',
       csvRow [] ''Ale'' ''2019'' ''1'' ''1'' ''1'' ''1'',
       csvRow ''Beta'' ''Gin'' ''2019'' ''1'' ''1'' ''1'' ''1'']))"
proof -
  note t = deriveFilterDomain_sorted [of "[csvRow ''Beta'' ''Rum'' ''2019'' ''1'' ''1'' ''1'' ''1'',
       csvRow ''Acme'' ''Ale'' ''2019'' ''1'' ''1'' ''1'' ''1'',
       csvRow [] ''Ale'' ''2019'' ''1'' ''1'' ''1'' ''1'',
       csvRow ''Beta'' ''Gin'' ''2019'' ''1'' ''1'' ''1'' ''1'']"]
  have a: "suppliers (deriveFilterDomain
      [csvRow ''Beta'' ''Rum'' ''2019'' ''1'' ''1'' ''1'' ''1'',
       csvRow ''Acme'' ''Ale'' ''2019'' ''1'' ''1'' ''1'' ''1'',
       csvRow [] ''Ale'' ''2019'' ''1'' ''1'' ''1'' ''1'',
       csvRow ''Beta'' ''Gin'' ''2019'' ''1'' ''1'' ''1'' ''1'']) = [''Acme'', ''Beta'']"
    by code_simp
  have b: "items (deriveFilterDomain
      [csvRow ''Beta'' ''Rum'' ''2019'' ''1'' ''1'' ''1'' ''1'',
       csvRow ''Acme'' ''Ale'' ''2019'' ''1'' ''1'' ''1'' ''1'',
       csvRow [] ''Ale'' ''2019'' ''1'' ''1'' ''1'' ''1'',
       csvRow ''Beta'' ''Gin'' ''2019'' ''1'' ''1'' ''1'' ''1'']) = [''Ale'', ''Gin'', ''Rum'']"
    by code_simp
  from a b t [THEN conjunct1] t [THEN conjunct2, THEN conjunct2, THEN conjunct2, THEN conjunct2, THEN conjunct1]
  show ?thesis by (intro conjI)
qed



section \<open>Months out of the calendar\<close>

text \<open>
  C10. The filter never looks at whether a month is between 1 and 12: for two rows with
  the same selected field whose year and month are read, keeping the row depends only on
  the linear key \<open>year * 12 + month\<close>, so a row of month 13 in a year is kept exactly
  when a row of month 1 in the next year is. A row that is kept has the entry of its own
  key in the chart, and the key of a row of month 13 ends in \<open>-13\<close>.
\<close>

theorem keepRow_linear_key:
  "(filterField filterType r = filterField filterType r' \<and>
      parseInt (YEAR r) = Num (of_int y) \<and> parseInt (MONTH r) = Num (of_int m) \<and>
      parseInt (YEAR r') = Num (of_int y') \<and> parseInt (MONTH r') = Num (of_int m') \<and>
      y * 12 + m = y' * 12 + m' \<longrightarrow>
      keepRow selectedValue filterType startDate endDate r =
      keepRow selectedValue filterType startDate endDate r')
   \<and> (filterField filterType r = filterField filterType r' \<and>
      parseInt (YEAR r) = Num (of_int y) \<and> parseInt (MONTH r) = Num 13 \<and>
      parseInt (YEAR r') = Num (of_int (y + 1)) \<and> parseInt (MONTH r') = Num 1 \<longrightarrow>
      keepRow selectedValue filterType startDate endDate r =
      keepRow selectedValue filterType startDate endDate r')
   \<and> (selectedValue \<noteq> [] \<and> isValidDateRange startDate endDate \<and> r \<in> set rawData \<and>
      keepRow selectedValue filterType startDate endDate r \<longrightarrow>
      monthKey r \<in>
        month ` set (chartData localeCompare rawData selectedValue filterType startDate endDate))
   \<and> (MONTH r = Some ''13'' \<longrightarrow> monthKey r = ToString (YEAR r) @ ''-13'')"
proof (intro conjI impI)
  assume a: "filterField filterType r = filterField filterType r' \<and>
      parseInt (YEAR r) = Num (of_int y) \<and> parseInt (MONTH r) = Num (of_int m) \<and>
      parseInt (YEAR r') = Num (of_int y') \<and> parseInt (MONTH r') = Num (of_int m') \<and>
      y * 12 + m = y' * 12 + m'"
  then have "keepRow selectedValue filterType startDate endDate r =
      (filterField filterType r = Some selectedValue \<and>
       year startDate * 12 + monthNo startDate \<le> y * 12 + m \<and>
       y * 12 + m \<le> year endDate * 12 + monthNo endDate)"
    and "keepRow selectedValue filterType startDate endDate r' =
      (filterField filterType r' = Some selectedValue \<and>
       year startDate * 12 + monthNo startDate \<le> y' * 12 + m' \<and>
       y' * 12 + m' \<le> year endDate * 12 + monthNo endDate)"
    by (simp_all only: keepRow_parsed)
  with a show "keepRow selectedValue filterType startDate endDate r =
      keepRow selectedValue filterType startDate endDate r'"
    by simp
next
  assume a: "filterField filterType r = filterField filterType r' \<and>
      parseInt (YEAR r) = Num (of_int y) \<and> parseInt (MONTH r) = Num 13 \<and>
      parseInt (YEAR r') = Num (of_int (y + 1)) \<and> parseInt (MONTH r') = Num 1"
  from a have b: "parseInt (MONTH r) = Num (of_int 13)" "parseInt (MONTH r') = Num (of_int 1)"
    by simp_all
  from a have c: "parseInt (YEAR r) = Num (of_int y)" "parseInt (YEAR r') = Num (of_int (y + 1))"
    and f: "filterField filterType r = filterField filterType r'"
    by simp_all
  show "keepRow selectedValue filterType startDate endDate r =
      keepRow selectedValue filterType startDate endDate r'"
    unfolding keepRow_parsed [OF c(1) b(1)] keepRow_parsed [OF c(2) b(2)] f by auto
next
  assume a: "selectedValue \<noteq> [] \<and> isValidDateRange startDate endDate \<and> r \<in> set rawData \<and>
      keepRow selectedValue filterType startDate endDate r"
  then have "r \<in> set (filtered rawData selectedValue filterType startDate endDate)"
    by (simp add: filtered_def)
  then show "monthKey r \<in>
      month ` set (chartData localeCompare rawData selectedValue filterType startDate endDate)"
    using a by (simp add: chartData_month_set)
next
  assume "MONTH r = Some ''13''"
  then show "monthKey r = ToString (YEAR r) @ ''-13''"
    by (simp add: monthKey_def padStart_def)
qed

theorem keepRow_linear_key_witness:
  "keepRow ''Acme'' ''supplier'' \<lparr>year = 2020, monthNo = 1\<rparr> \<lparr>year = 2020, monthNo = 1\<rparr>
     (csvRow ''Acme'' ''Ale'' ''2019'' ''13'' ''10'' ''5'' ''0'')
   \<and> keepRow ''Acme'' ''supplier'' \<lparr>year = 2020, monthNo = 1\<rparr> \<lparr>year = 2020, monthNo = 1\<rparr>
     (csvRow ''Acme'' ''Ale'' ''2020'' ''1'' ''1'' ''1'' ''1'')
   \<and> monthKey (csvRow ''Acme'' ''Ale'' ''2019'' ''13'' ''10'' ''5'' ''0'') = ''2019-13''
   \<and> monthKey (csvRow ''Acme'' ''Ale'' ''2019'' ''13'' ''10'' ''5'' ''0'')
      \<in> month ` set (chartData compareCodeUnits
           [csvRow ''Acme'' ''Ale'' ''2019'' ''13'' ''10'' ''5'' ''0'',
            csvRow ''Acme'' ''Ale'' ''2020'' ''1'' ''1'' ''1'' ''1'']
           ''Acme'' ''supplier'' \<lparr>year = 2020, monthNo = 1\<rparr> \<lparr>year = 2020, monthNo = 1\<rparr>)"
proof -
  note t = keepRow_linear_key [where filterType = "''supplier''" and selectedValue = "''Acme''"
      and r = "csvRow ''Acme'' ''Ale'' ''2019'' ''13'' ''10'' ''5'' ''0''"
      and r' = "csvRow ''Acme'' ''Ale'' ''2020'' ''1'' ''1'' ''1'' ''1''"
      and y = 2019 and startDate = "\<lparr>year = 2020, monthNo = 1\<rparr>"
      and endDate = "\<lparr>year = 2020, monthNo = 1\<rparr>"
      and rawData = "[csvRow ''Acme'' ''Ale'' ''2019'' ''13'' ''10'' ''5'' ''0'',
            csvRow ''Acme'' ''Ale'' ''2020'' ''1'' ''1'' ''1'' ''1'']"
      and localeCompare = compareCodeUnits]
  have f: "filterField ''supplier'' (csvRow ''Acme'' ''Ale'' ''2019'' ''13'' ''10'' ''5'' ''0'') =
      filterField ''supplier'' (csvRow ''Acme'' ''Ale'' ''2020'' ''1'' ''1'' ''1'' ''1'')"
    by code_simp
  have p: "parseInt (YEAR (csvRow ''Acme'' ''Ale'' ''2019'' ''13'' ''10'' ''5'' ''0'')) =
      Num (of_int 2019)"
    "parseInt (MONTH (csvRow ''Acme'' ''Ale'' ''2019'' ''13'' ''10'' ''5'' ''0'')) = Num 13"
    "parseInt (YEAR (csvRow ''Acme'' ''Ale'' ''2020'' ''1'' ''1'' ''1'' ''1'')) =
      Num (of_int (2019 + 1))"
    "parseInt (MONTH (csvRow ''Acme'' ''Ale'' ''2020'' ''1'' ''1'' ''1'' ''1'')) = Num 1"
    by code_simp+
  have k': "keepRow ''Acme'' ''supplier'' \<lparr>year = 2020, monthNo = 1\<rparr> \<lparr>year = 2020, monthNo = 1\<rparr>
     (csvRow ''Acme'' ''Ale'' ''2020'' ''1'' ''1'' ''1'' ''1'')"
    by code_simp
  have e: "keepRow ''Acme'' ''supplier'' \<lparr>year = 2020, monthNo = 1\<rparr> \<lparr>year = 2020, monthNo = 1\<rparr>
     (csvRow ''Acme'' ''Ale'' ''2019'' ''13'' ''10'' ''5'' ''0'') =
     keepRow ''Acme'' ''supplier'' \<lparr>year = 2020, monthNo = 1\<rparr> \<lparr>year = 2020, monthNo = 1\<rparr>
     (csvRow ''Acme'' ''Ale'' ''2020'' ''1'' ''1'' ''1'' ''1'')"
    by (rule t [THEN conjunct2, THEN conjunct1, THEN mp]) (intro conjI f p)
  from e k' have k: "keepRow ''Acme'' ''supplier'' \<lparr>year = 2020, monthNo = 1\<rparr>
     \<lparr>year = 2020, monthNo = 1\<rparr> (csvRow ''Acme'' ''Ale'' ''2019'' ''13'' ''10'' ''5'' ''0'')"
    by (rule iffD2)
  have v: "isValidDateRange \<lparr>year = 2020, monthNo = 1\<rparr> \<lparr>year = 2020, monthNo = 1\<rparr>"
    by (simp add: isValidDateRange_def)
  have n: "''Acme'' \<noteq> []" by simp
  have i: "csvRow ''Acme'' ''Ale'' ''2019'' ''13'' ''10'' ''5'' ''0''
      \<in> set [csvRow ''Acme'' ''Ale'' ''2019'' ''13'' ''10'' ''5'' ''0'',
            csvRow ''Acme'' ''Ale'' ''2020'' ''1'' ''1'' ''1'' ''1'']"
    by simp
  have c: "monthKey (csvRow ''Acme'' ''Ale'' ''2019'' ''13'' ''10'' ''5'' ''0'')
      \<in> month ` set (chartData compareCodeUnits
           [csvRow ''Acme'' ''Ale'' ''2019'' ''13'' ''10'' ''5'' ''0'',
            csvRow ''Acme'' ''Ale'' ''2020'' ''1'' ''1'' ''1'' ''1'']
           ''Acme'' ''supplier'' \<lparr>year = 2020, monthNo = 1\<rparr> \<lparr>year = 2020, monthNo = 1\<rparr>)"
    by (rule t [THEN conjunct2, THEN conjunct2, THEN conjunct1, THEN mp]) (intro conjI n v i k)
  have m: "MONTH (csvRow ''Acme'' ''Ale'' ''2019'' ''13'' ''10'' ''5'' ''0'') = Some ''13''"
    by (simp add: csvRow_def)
  have "monthKey (csvRow ''Acme'' ''Ale'' ''2019'' ''13'' ''10'' ''5'' ''0'') =
      ToString (YEAR (csvRow ''Acme'' ''Ale'' ''2019'' ''13'' ''10'' ''5'' ''0'')) @ ''-13''"
    by (rule t [THEN conjunct2, THEN conjunct2, THEN conjunct2, THEN mp]) (rule m)
  then have d: "monthKey (csvRow ''Acme'' ''Ale'' ''2019'' ''13'' ''10'' ''5'' ''0'') = ''2019-13''"
    by (simp add: csvRow_def)
  from k k' d c show ?thesis by (intro conjI)
qed

end
